theory Spec2Isabelle
  imports Main
begin

section \<open>JavaScript values that come out of JSON\<close>

text \<open>
  The value of \<^verbatim>\<open>await response.json()\<close> and the argument handed to a zod schema are
  JSON values. An object is the list of its own properties in property order (each key
  once); a property read returns the first binding of the key. A number is modelled by
  an integer: a JSON number is a double, and the integer-valued ones are all that the
  statements below need.
  \<^verbatim>\<open>undefined\<close> is not a JSON value: a JavaScript value that may be undefined is a
  \<open>json option\<close>, with \<open>None\<close> for \<^verbatim>\<open>undefined\<close>.
\<close>

datatype json =
    JNull
  | JBool bool
  | JNum int
  | JStr string
  | JArr "json list"
  | JObj "(string \<times> json) list"

type_synonym jsval = "json option"

lemma size_map_of_lt:
  "map_of fs k = Some v \<Longrightarrow> size v < size (JObj fs)"
  by (induction fs) (auto split: if_splits)

lemma size_elem_lt:
  "x \<in> set xs \<Longrightarrow> size x < size (JArr xs)"
  by (induction xs) auto

section \<open>The zod combinators used by the schemas\<close>

text \<open>
  The schemas of types.ts and env.ts are built from combinators of the package zod, a
  dependency of the repository. Each combinator is given here with the behaviour the
  package documents for it. A schema maps a candidate to the parsed value, or to \<open>None\<close>
  when \<^verbatim>\<open>safeParse\<close> reports issues (\<^verbatim>\<open>parse\<close> throws a ZodError then). Only acceptance
  and the parsed value are modelled, not the issue list. \<^verbatim>\<open>.describe(...)\<close> attaches
  documentation and does not change what a schema accepts, so it has no counterpart here.
\<close>

type_synonym schema = "jsval \<Rightarrow> json option"

definition z_string :: schema where
  \<comment> \<open>\<^verbatim>\<open>z.string()\<close>: any value whose \<^verbatim>\<open>typeof\<close> is "string", of any length.\<close>
  "z_string v = (case v of Some (JStr s) \<Rightarrow> Some (JStr s) | _ \<Rightarrow> None)"

definition z_string_min :: "nat \<Rightarrow> schema" where
  \<comment> \<open>\<^verbatim>\<open>z.string().min(n)\<close>\<close>
  "z_string_min n v =
     (case v of Some (JStr s) \<Rightarrow> if n \<le> length s then Some (JStr s) else None | _ \<Rightarrow> None)"

definition z_nullable :: "schema \<Rightarrow> schema" where
  \<comment> \<open>\<^verbatim>\<open>.nullable()\<close>: \<^verbatim>\<open>null\<close> passes as itself; \<^verbatim>\<open>undefined\<close> still goes to the inner schema.\<close>
  "z_nullable s v = (case v of Some JNull \<Rightarrow> Some JNull | _ \<Rightarrow> s v)"

definition z_array :: "schema \<Rightarrow> schema" where
  \<comment> \<open>\<^verbatim>\<open>z.array(s)\<close>: an array all of whose elements pass \<open>s\<close>.\<close>
  "z_array s v =
     (case v of
        Some (JArr xs) \<Rightarrow> map_option JArr (those (map (\<lambda>x. s (Some x)) xs))
      | _ \<Rightarrow> None)"

fun z_union :: "schema list \<Rightarrow> schema" where
  \<comment> \<open>\<^verbatim>\<open>z.union([...])\<close>: the result of the first option that accepts.\<close>
  "z_union [] v = None"
| "z_union (s # ss) v = (case s v of Some r \<Rightarrow> Some r | None \<Rightarrow> z_union ss v)"

fun parse_shape :: "(string \<times> schema) list \<Rightarrow> (string \<times> json) list \<Rightarrow> (string \<times> json) list option" where
  "parse_shape [] fs = Some []"
| "parse_shape ((k, s) # shape) fs =
     (case s (map_of fs k) of
        None \<Rightarrow> None
      | Some r \<Rightarrow> map_option (\<lambda>rest. (k, r) # rest) (parse_shape shape fs))"

definition z_object :: "(string \<times> schema) list \<Rightarrow> schema" where
  \<comment> \<open>\<^verbatim>\<open>z.object(shape)\<close>: a plain object (not null, not an array) each of whose shape
      keys passes its schema, a missing key being read as \<^verbatim>\<open>undefined\<close>; keys outside the
      shape are stripped from the parsed value.\<close>
  "z_object shape v = (case v of Some (JObj fs) \<Rightarrow> map_option JObj (parse_shape shape fs) | _ \<Rightarrow> None)"

definition z_lazy :: "(unit \<Rightarrow> schema) \<Rightarrow> schema" where
  "z_lazy getter v = getter () v"

section \<open>types.ts: the Abstract Component Tree schema\<close>

text \<open>
  \<^verbatim>\<open>ACTComponentSchema = z.lazy(() => z.object({ component: z.string(),
  description: z.string(), mcpQuery: z.string().nullable(),
  children: z.union([z.array(ACTComponentSchema), z.string()]) }))\<close>.
  The schema refers to itself under \<^verbatim>\<open>z.array\<close>. The definition below writes that
  recursion out on the candidate, key by key in the order of the shape, so that its
  termination can be proved; lemma \<open>ACTComponentSchema_source\<close> then shows that it
  satisfies the equation of types.ts, combinator by combinator.
\<close>

function ACTComponentSchema :: schema where
  "ACTComponentSchema v =
     (case v of
        Some (JObj fs) \<Rightarrow>
          (case z_string (map_of fs ''component'') of
             None \<Rightarrow> None
           | Some c \<Rightarrow>
          (case z_string (map_of fs ''description'') of
             None \<Rightarrow> None
           | Some d \<Rightarrow>
          (case z_nullable z_string (map_of fs ''mcpQuery'') of
             None \<Rightarrow> None
           | Some q \<Rightarrow>
          (case (case map_of fs ''children'' of
                   Some (JArr xs) \<Rightarrow>
                     (case those (map (\<lambda>x. ACTComponentSchema (Some x)) xs) of
                        Some ys \<Rightarrow> Some (JArr ys)
                      | None \<Rightarrow> z_string (Some (JArr xs)))
                 | w \<Rightarrow> z_string w) of
             None \<Rightarrow> None
           | Some ch \<Rightarrow>
               Some (JObj [(''component'', c), (''description'', d),
                           (''mcpQuery'', q), (''children'', ch)])))))
      | _ \<Rightarrow> None)"
  by pat_completeness auto
termination
proof (relation "measure (\<lambda>v. case v of None \<Rightarrow> 0 | Some j \<Rightarrow> size j)")
  show "wf (measure (\<lambda>v. case v of None \<Rightarrow> 0 | Some j \<Rightarrow> size j))" by simp
next
  fix v :: jsval and j fs c d q w and xs :: "json list" and x
  assume "v = Some j" "j = JObj fs" "map_of fs ''children'' = Some w" "w = JArr xs" "x \<in> set xs"
  then have "size x < size (JArr xs)" "size (JArr xs) < size (JObj fs)"
    using size_elem_lt size_map_of_lt by blast+
  with \<open>v = Some j\<close> \<open>j = JObj fs\<close>
  show "(Some x, v) \<in> measure (\<lambda>v. case v of None \<Rightarrow> 0 | Some j \<Rightarrow> size j)"
    by simp
qed

declare ACTComponentSchema.simps [simp del]

section \<open>JavaScript operations on these values\<close>

datatype fault =
    Error string  \<comment> \<open>an instance of \<^verbatim>\<open>Error\<close> (TypeError, SyntaxError, ...) with its message\<close>
  | Thrown        \<comment> \<open>a thrown value that is not an instance of \<^verbatim>\<open>Error\<close>\<close>

definition try_bind :: "fault + 'a \<Rightarrow> ('a \<Rightarrow> fault + 'b) \<Rightarrow> fault + 'b" where
  \<comment> \<open>sequencing inside a \<^verbatim>\<open>try\<close> block: the first throw ends the block\<close>
  "try_bind m f = (case m of Inl e \<Rightarrow> Inl e | Inr x \<Rightarrow> f x)"

definition cannot_read :: "string \<Rightarrow> string \<Rightarrow> string" where
  \<comment> \<open>the message of the TypeError of a property read on \<^verbatim>\<open>undefined\<close> or \<^verbatim>\<open>null\<close>
      (the wording of Node's engine)\<close>
  "cannot_read base k =
     ''Cannot read properties of '' @ base @ '' (reading '' @ [CHR 0x27] @ k @ [CHR 0x27] @ '')''"

definition get :: "jsval \<Rightarrow> string \<Rightarrow> fault + jsval" where
  \<comment> \<open>\<^verbatim>\<open>v.k\<close> for the keys read in server.ts (success, data, error, plan, structure, code,
      mainComponent), none of which is a built-in property of a string, number, boolean
      or array\<close>
  "get v k =
     (case v of
        None \<Rightarrow> Inl (Error (cannot_read ''undefined'' k))
      | Some JNull \<Rightarrow> Inl (Error (cannot_read ''null'' k))
      | Some (JObj fs) \<Rightarrow> Inr (map_of fs k)
      | Some _ \<Rightarrow> Inr None)"

fun truthy :: "jsval \<Rightarrow> bool" where
  "truthy None = False"
| "truthy (Some JNull) = False"
| "truthy (Some (JBool b)) = b"
| "truthy (Some (JNum n)) = (n \<noteq> 0)"
| "truthy (Some (JStr s)) = (s \<noteq> [])"
| "truthy (Some (JArr xs)) = True"
| "truthy (Some (JObj fs)) = True"

fun join :: "string \<Rightarrow> string list \<Rightarrow> string" where
  \<comment> \<open>\<^verbatim>\<open>Array.prototype.join\<close> on strings\<close>
  "join sep [] = []"
| "join sep [x] = x"
| "join sep (x # y # ys) = x @ sep @ join sep (y # ys)"

definition digit :: "nat \<Rightarrow> char" where
  "digit d = char_of (48 + d)"

function show_nat :: "nat \<Rightarrow> string" where
  "show_nat n = (if n < 10 then [digit n] else show_nat (n div 10) @ [digit (n mod 10)])"
  by pat_completeness auto
termination
  by (relation "measure id") auto

declare show_nat.simps [simp del]

definition show_int :: "int \<Rightarrow> string" where
  \<comment> \<open>the decimal text of an integer: what the conversion of a number to a string
      gives for an integer of magnitude below \<open>10\<^sup>2\<^sup>1\<close>\<close>
  "show_int i = (if i < 0 then ''-'' @ show_nat (nat (- i)) else show_nat (nat i))"

fun to_string_json :: "json \<Rightarrow> string" where
  "to_string_json JNull = ''null''"
| "to_string_json (JBool b) = (if b then ''true'' else ''false'')"
| "to_string_json (JNum n) = show_int n"
| "to_string_json (JStr s) = s"
| "to_string_json (JArr xs) =
     join '','' (map (\<lambda>x. if x = JNull then [] else to_string_json x) xs)"
| "to_string_json (JObj fs) = ''[object Object]''"

definition to_string :: "jsval \<Rightarrow> string" where
  \<comment> \<open>the conversion a template literal applies to an interpolated value\<close>
  "to_string v = (case v of None \<Rightarrow> ''undefined'' | Some j \<Rightarrow> to_string_json j)"

definition hex_digit :: "nat \<Rightarrow> char" where
  "hex_digit d = (if d < 10 then char_of (48 + d) else char_of (87 + d))"

definition quote_char :: "char \<Rightarrow> string" where
  \<comment> \<open>the escapes of \<^verbatim>\<open>JSON.stringify\<close> inside a string: the double quote, the backslash and
      the control characters below \<open>0x20\<close>\<close>
  "quote_char c =
     (if c = CHR 0x22 then [CHR 0x5C, CHR 0x22]
      else if c = CHR 0x5C then [CHR 0x5C, CHR 0x5C]
      else if c = CHR 0x08 then [CHR 0x5C, CHR ''b'']
      else if c = CHR 0x0C then [CHR 0x5C, CHR ''f'']
      else if c = CHR 0x0A then [CHR 0x5C, CHR ''n'']
      else if c = CHR 0x0D then [CHR 0x5C, CHR ''r'']
      else if c = CHR 0x09 then [CHR 0x5C, CHR ''t'']
      else if (of_char c :: nat) < 32
        then [CHR 0x5C, CHR ''u'', CHR ''0'', CHR ''0'',
              hex_digit (of_char c div 16), hex_digit (of_char c mod 16)]
      else [c])"

definition quote :: "string \<Rightarrow> string" where
  "quote s = [CHR 0x22] @ concat (map quote_char s) @ [CHR 0x22]"

fun stringify :: "string \<Rightarrow> json \<Rightarrow> string" where
  \<comment> \<open>the serialisation of \<^verbatim>\<open>JSON.stringify(v, null, 2)\<close> at the current indentation\<close>
  "stringify ind JNull = ''null''"
| "stringify ind (JBool b) = (if b then ''true'' else ''false'')"
| "stringify ind (JNum n) = show_int n"
| "stringify ind (JStr s) = quote s"
| "stringify ind (JArr xs) =
     (if xs = [] then ''[]''
      else ''['' @ [CHR 0x0A] @ (ind @ ''  '') @
           join ('','' @ [CHR 0x0A] @ (ind @ ''  '')) (map (\<lambda>x. stringify (ind @ ''  '') x) xs) @
           [CHR 0x0A] @ ind @ '']'')"
| "stringify ind (JObj fs) =
     (if fs = [] then ''{}''
      else ''{'' @ [CHR 0x0A] @ (ind @ ''  '') @
           join ('','' @ [CHR 0x0A] @ (ind @ ''  ''))
             (map (\<lambda>(k, x). quote k @ '': '' @ stringify (ind @ ''  '') x) fs) @
           [CHR 0x0A] @ ind @ ''}'')"

definition JSON_stringify2 :: "jsval \<Rightarrow> json option" where
  \<comment> \<open>\<^verbatim>\<open>JSON.stringify(v, null, 2)\<close>: \<^verbatim>\<open>undefined\<close> for \<^verbatim>\<open>undefined\<close>, a string otherwise\<close>
  "JSON_stringify2 v = (case v of None \<Rightarrow> None | Some j \<Rightarrow> Some (JStr (stringify [] j)))"

section \<open>env.ts: the configuration\<close>

record env =
  SECRET :: string
  SERVER_URL :: string

definition envSchema :: schema where
  "envSchema = z_object [(''SECRET'', z_string_min 1), (''SERVER_URL'', z_string_min 1)]"

definition process_env_object :: "(string \<times> string) list \<Rightarrow> json" where
  \<comment> \<open>\<^verbatim>\<open>process.env\<close>: an object whose values are strings\<close>
  "process_env_object vars = JObj (map (\<lambda>(k, v). (k, JStr v)) vars)"

definition str_field :: "json \<Rightarrow> string \<Rightarrow> string" where
  \<comment> \<open>the string under a key of an object that has it, as the parsed environment does\<close>
  "str_field j k =
     (case j of
        JObj fs \<Rightarrow> (case map_of fs k of Some (JStr s) \<Rightarrow> s | _ \<Rightarrow> [])
      | _ \<Rightarrow> [])"

datatype exit =
    Uncaught_ZodError  \<comment> \<open>\<^verbatim>\<open>envSchema.parse\<close> threw while the module env.ts was evaluated\<close>
  | Exit_1             \<comment> \<open>\<^verbatim>\<open>process.exit(1)\<close> in \<^verbatim>\<open>main\<close>\<close>

definition load_env :: "(string \<times> string) list \<Rightarrow> exit + env" where
  \<comment> \<open>\<^verbatim>\<open>export const env = envSchema.parse(process.env)\<close>\<close>
  "load_env vars =
     (case envSchema (Some (process_env_object vars)) of
        None \<Rightarrow> Inl Uncaught_ZodError
      | Some parsed \<Rightarrow>
          Inr \<lparr>SECRET = str_field parsed ''SECRET'', SERVER_URL = str_field parsed ''SERVER_URL''\<rparr>)"

section \<open>server.ts: the reports\<close>

text \<open>
  Every handler returns \<^verbatim>\<open>{ content: [{ type: 'text', text: dedent`...` }] }\<close>. The text is
  one of nine template literals, tagged with the \<^verbatim>\<open>dedent\<close> function of the package of
  that name, which receives the static text and the interpolated values. A report is kept
  as that call: which template literal, and the interpolated values in order, each
  converted to a string as the tag does when it concatenates. What \<^verbatim>\<open>dedent\<close> then does to
  the indentation of the assembled text is the package's and is not part of the model.
\<close>

datatype template =
    Planner_Tool_API_Error
  | Page_Generation_Plan
  | Planner_Tool_Network_Error
  | Structure_Tool_API_Error
  | ACT_Generated
  | Structure_Tool_Network_Error
  | Code_Generator_API_Error
  | Code_Generated_Successfully
  | Code_Generator_Network_Error

record report =
  template :: template
  interpolated :: "string list"

datatype kind = Success | API_Error | Network_Error

fun kind_of :: "template \<Rightarrow> kind" where
  "kind_of Planner_Tool_API_Error = API_Error"
| "kind_of Page_Generation_Plan = Success"
| "kind_of Planner_Tool_Network_Error = Network_Error"
| "kind_of Structure_Tool_API_Error = API_Error"
| "kind_of ACT_Generated = Success"
| "kind_of Structure_Tool_Network_Error = Network_Error"
| "kind_of Code_Generator_API_Error = API_Error"
| "kind_of Code_Generated_Successfully = Success"
| "kind_of Code_Generator_Network_Error = Network_Error"

fun heading :: "template \<Rightarrow> string" where
  \<comment> \<open>the first line of the template literal, after \<^verbatim>\<open>##\<close> and the pictograph\<close>
  "heading Planner_Tool_API_Error = ''Planner Tool API Error''"
| "heading Page_Generation_Plan = ''Kendo React Page Generation Plan''"
| "heading Planner_Tool_Network_Error = ''Planner Tool Network Error''"
| "heading Structure_Tool_API_Error = ''Structure Tool API Error''"
| "heading ACT_Generated = ''Abstract Component Tree (ACT) Generated''"
| "heading Structure_Tool_Network_Error = ''Structure Tool Network Error''"
| "heading Code_Generator_API_Error = ''Code Generator API Error''"
| "heading Code_Generated_Successfully = ''Kendo React Code Generated Successfully!''"
| "heading Code_Generator_Network_Error = ''Code Generator Network Error''"


section \<open>server.ts: the three tool handlers\<close>

record request =
  url :: string
  body :: json

text \<open>
  \<open>fetch_json\<close> stands for \<^verbatim>\<open>fetch(url, { method: 'POST', headers, body: JSON.stringify(b) })\<close>
  followed by \<^verbatim>\<open>response.json()\<close>: the remote collaborator sees the request and either one of
  the two calls throws, or the decoded response is returned. \<open>now\<close> is the text of
  \<^verbatim>\<open>new Date().toISOString()\<close> and \<open>date_now\<close> the number \<^verbatim>\<open>Date.now()\<close> at the moment the
  handler reads the clock. The body of a handler is one \<^verbatim>\<open>try\<close> block; its \<^verbatim>\<open>catch\<close> writes
  the error to the standard error stream, which is not modelled, and returns the
  network-error report.
\<close>

definition not_success_and_not_data :: "json \<Rightarrow> fault + bool" where
  \<comment> \<open>\<^verbatim>\<open>!result.success && !result.data\<close>\<close>
  "not_success_and_not_data result =
     try_bind (get (Some result) ''success'') (\<lambda>success.
       if truthy success then Inr False
       else try_bind (get (Some result) ''data'') (\<lambda>data. Inr (\<not> truthy data)))"

definition error_or :: "json \<Rightarrow> string \<Rightarrow> fault + string" where
  \<comment> \<open>\<^verbatim>\<open>${result.error || fallback}\<close>\<close>
  "error_or result fallback =
     try_bind (get (Some result) ''error'') (\<lambda>error.
       Inr (if truthy error then to_string error else fallback))"

definition error_message_or :: "fault \<Rightarrow> string \<Rightarrow> string" where
  \<comment> \<open>\<^verbatim>\<open>${error instanceof Error ? error.message : fallback}\<close>\<close>
  "error_message_or error fallback = (case error of Error m \<Rightarrow> m | Thrown \<Rightarrow> fallback)"

definition planner_request :: "env \<Rightarrow> string \<Rightarrow> request" where
  "planner_request env query =
     \<lparr>url = SERVER_URL env @ ''/api/agents/planner/generate'',
      body = JObj [(''query'', JStr query), (''secret'', JStr (SECRET env))]\<rparr>"

definition planner_tool :: "env \<Rightarrow> (request \<Rightarrow> fault + json) \<Rightarrow> string \<Rightarrow> string \<Rightarrow> report" where
  "planner_tool env fetch_json now query =
     (case
        try_bind (fetch_json (planner_request env query)) (\<lambda>result.
        try_bind (not_success_and_not_data result) (\<lambda>failed.
          if failed then
            try_bind (error_or result ''Unknown error occurred while generating the execution plan'')
              (\<lambda>details.
                Inr \<lparr>template = Planner_Tool_API_Error, interpolated = [details, now]\<rparr>)
          else
            try_bind (get (Some result) ''data'') (\<lambda>data.
            try_bind (get data ''plan'') (\<lambda>plan.
              Inr \<lparr>template = Page_Generation_Plan, interpolated = [to_string plan]\<rparr>))))
      of
        Inr r \<Rightarrow> r
      | Inl error \<Rightarrow>
          \<lparr>template = Planner_Tool_Network_Error,
           interpolated = [error_message_or error ''Unknown network error'', now]\<rparr>)"

definition structure_request :: "env \<Rightarrow> int \<Rightarrow> string \<Rightarrow> string \<Rightarrow> request" where
  "structure_request env date_now plan query =
     \<lparr>url = SERVER_URL env @ ''/api/agents/structure/generate'',
      body = JObj [(''executionPlan'',
                     JObj [(''id'', JStr (''plan-'' @ show_int date_now)),
                           (''userQuery'', JStr query),
                           (''plan'', JStr plan)]),
                   (''query'', JStr query),
                   (''secret'', JStr (SECRET env))]\<rparr>"

definition structure_tool ::
  "env \<Rightarrow> (request \<Rightarrow> fault + json) \<Rightarrow> int \<Rightarrow> string \<Rightarrow> string \<Rightarrow> string \<Rightarrow> report" where
  "structure_tool env fetch_json date_now now plan query =
     (case
        try_bind (fetch_json (structure_request env date_now plan query)) (\<lambda>result.
        try_bind (not_success_and_not_data result) (\<lambda>failed.
          if failed then
            try_bind (error_or result ''Unknown error occurred while generating the component structure'')
              (\<lambda>details.
                Inr \<lparr>template = Structure_Tool_API_Error, interpolated = [details, now]\<rparr>)
          else
            try_bind (get (Some result) ''data'') (\<lambda>data.
            try_bind (get data ''structure'') (\<lambda>structure.
              Inr \<lparr>template = ACT_Generated,
                   interpolated = [to_string (JSON_stringify2 structure)]\<rparr>))))
      of
        Inr r \<Rightarrow> r
      | Inl error \<Rightarrow>
          \<lparr>template = Structure_Tool_Network_Error,
           interpolated = [error_message_or error ''Unknown network error'', now]\<rparr>)"

definition merger_request :: "env \<Rightarrow> json \<Rightarrow> request" where
  "merger_request env actStructure =
     \<lparr>url = SERVER_URL env @ ''/api/agents/merger/generate'',
      body = JObj [(''actStructure'', actStructure), (''secret'', JStr (SECRET env))]\<rparr>"

definition merger_tool :: "env \<Rightarrow> (request \<Rightarrow> fault + json) \<Rightarrow> string \<Rightarrow> json \<Rightarrow> report" where
  "merger_tool env fetch_json now actStructure =
     (case
        try_bind (fetch_json (merger_request env actStructure)) (\<lambda>result.
        try_bind (not_success_and_not_data result) (\<lambda>failed.
          if failed then
            try_bind (error_or result ''Unknown error occurred while generating the Kendo React code'')
              (\<lambda>details.
                Inr \<lparr>template = Code_Generator_API_Error, interpolated = [details, now]\<rparr>)
          else
            try_bind (get (Some result) ''data'') (\<lambda>data.
            try_bind (get data ''code'') (\<lambda>code.
            try_bind (get code ''mainComponent'') (\<lambda>mainComponent.
              Inr \<lparr>template = Code_Generated_Successfully,
                   interpolated = [to_string (JSON_stringify2 mainComponent)]\<rparr>)))))
      of
        Inr r \<Rightarrow> r
      | Inl error \<Rightarrow>
          \<lparr>template = Code_Generator_Network_Error,
           interpolated = [error_message_or error ''Unknown network error'', now]\<rparr>)"

section \<open>server.ts: evaluation of the module\<close>

record server =
  server_name :: string
  server_version :: string
  tools :: "string list"
  connected :: bool

definition McpServer :: "string \<Rightarrow> string \<Rightarrow> server" where
  "McpServer n v = \<lparr>server_name = n, server_version = v, tools = [], connected = False\<rparr>"

definition registerTool :: "string \<Rightarrow> server \<Rightarrow> server" where
  "registerTool n s = s\<lparr>tools := tools s @ [n]\<rparr>"

record process =
  exited :: "exit option"      \<comment> \<open>how the process ended during start-up, if it did\<close>
  config :: "env option"       \<comment> \<open>the constant \<^verbatim>\<open>env\<close>, once env.ts has been evaluated\<close>
  mcp :: "server option"       \<comment> \<open>the constant \<^verbatim>\<open>server\<close>, once it has been constructed\<close>

definition server_ts :: "(string \<times> string) list \<Rightarrow> bool \<Rightarrow> process" where
  \<comment> \<open>Start-up. The import of env.ts is evaluated before the body of server.ts, so a
      ZodError thrown there ends the process before \<^verbatim>\<open>new McpServer\<close> and the three
      \<^verbatim>\<open>registerTool\<close> calls. \<open>connect_ok\<close> says whether \<^verbatim>\<open>server.connect(transport)\<close> in
      \<^verbatim>\<open>main\<close> succeeds.\<close>
  "server_ts vars connect_ok =
     (case load_env vars of
        Inl e \<Rightarrow> \<lparr>exited = Some e, config = None, mcp = None\<rparr>
      | Inr env \<Rightarrow>
          (let server = McpServer ''kendoai-mcp'' ''1.0.0'';
               server = registerTool ''planner_tool'' server;
               server = registerTool ''structure_tool'' server;
               server = registerTool ''merger_tool'' server
           in if connect_ok
              then \<lparr>exited = None, config = Some env, mcp = Some (server\<lparr>connected := True\<rparr>)\<rparr>
              else \<lparr>exited = Some Exit_1, config = Some env, mcp = Some server\<rparr>))"

section \<open>Vocabulary of the statements\<close>

definition act_node :: "json \<Rightarrow> json \<Rightarrow> json \<Rightarrow> json \<Rightarrow> json" where
  \<comment> \<open>the parsed value of an accepted node: the four keys of the shape, in its order\<close>
  "act_node c d q ch =
     JObj [(''component'', c), (''description'', d), (''mcpQuery'', q), (''children'', ch)]"

definition field :: "json \<Rightarrow> string \<Rightarrow> jsval" where
  \<comment> \<open>the value of \<^verbatim>\<open>j.k\<close> for a \<open>j\<close> other than \<^verbatim>\<open>null\<close>, where the read does not throw\<close>
  "field j k = (case j of JObj fs \<Rightarrow> map_of fs k | _ \<Rightarrow> None)"



definition children_schema :: schema where
  \<comment> \<open>the schema of the \<^verbatim>\<open>children\<close> key\<close>
  "children_schema = z_union [z_array ACTComponentSchema, z_string]"

section \<open>The schema as types.ts writes it\<close>

lemma ACTComponentSchema_source:
  "ACTComponentSchema =
     z_lazy (\<lambda>_. z_object
       [(''component'', z_string),
        (''description'', z_string),
        (''mcpQuery'', z_nullable z_string),
        (''children'', z_union [z_array ACTComponentSchema, z_string])])"
proof (rule ext)
  fix v
  show "ACTComponentSchema v = z_lazy (\<lambda>_. z_object
       [(''component'', z_string),
        (''description'', z_string),
        (''mcpQuery'', z_nullable z_string),
        (''children'', z_union [z_array ACTComponentSchema, z_string])]) v"
    by (subst ACTComponentSchema.simps)
       (auto simp: z_lazy_def z_object_def z_array_def z_string_def
             split: option.splits json.splits)
qed

lemma ACT_object:
  "ACTComponentSchema (Some (JObj fs)) =
     (case z_string (map_of fs ''component'') of None \<Rightarrow> None | Some c \<Rightarrow>
      case z_string (map_of fs ''description'') of None \<Rightarrow> None | Some d \<Rightarrow>
      case z_nullable z_string (map_of fs ''mcpQuery'') of None \<Rightarrow> None | Some q \<Rightarrow>
      case children_schema (map_of fs ''children'') of None \<Rightarrow> None | Some ch \<Rightarrow>
        Some (act_node c d q ch))"
  by (subst ACTComponentSchema_source)
     (simp add: z_lazy_def z_object_def children_schema_def act_node_def split: option.splits)

lemma ACT_not_object:
  "(\<And>fs. v \<noteq> Some (JObj fs)) \<Longrightarrow> ACTComponentSchema v = None"
  by (subst ACTComponentSchema.simps) (auto split: option.splits json.splits)

lemma z_string_Some: "z_string v = Some r \<longleftrightarrow> (\<exists>s. v = Some (JStr s) \<and> r = JStr s)"
  by (auto simp: z_string_def split: option.splits json.splits)

lemma those_None_iff: "those xs = None \<longleftrightarrow> None \<in> set xs"
  by (induction xs) (auto split: option.splits)

lemma children_schema_string: "children_schema (Some (JStr s)) = Some (JStr s)"
  by (simp add: children_schema_def z_array_def z_string_def)

lemma children_schema_array:
  "children_schema (Some (JArr xs)) = map_option JArr (those (map (\<lambda>x. ACTComponentSchema (Some x)) xs))"
  by (simp add: children_schema_def z_array_def z_string_def split: option.splits)

lemma children_schema_other:
  "(\<And>s. v \<noteq> Some (JStr s)) \<Longrightarrow> (\<And>xs. v \<noteq> Some (JArr xs)) \<Longrightarrow> children_schema v = None"
  by (auto simp: children_schema_def z_array_def z_string_def split: option.splits json.splits)

lemma ACT_accepts_only_objects:
  "ACTComponentSchema v = Some out \<Longrightarrow> \<exists>fs. v = Some (JObj fs)"
  using ACT_not_object [of v] by fastforce

section \<open>Claims about the schema (types.ts)\<close>

text \<open>
  Claim C3, as the code has it. The schema accepts a candidate exactly when it is an object
  whose \<^verbatim>\<open>component\<close> and \<^verbatim>\<open>description\<close> are strings, whose \<^verbatim>\<open>mcpQuery\<close> passes
  \<^verbatim>\<open>z.string().nullable()\<close> and whose \<^verbatim>\<open>children\<close> pass the union; the parsed node carries the
  two strings unchanged. Both are plain \<^verbatim>\<open>z.string()\<close>, with no minimum length: any string,
  the empty one included, is accepted for either.
\<close>

theorem ACT_component_description_are_strings:
  "ACTComponentSchema v = Some out \<longleftrightarrow>
     (\<exists>fs c d q ch. v = Some (JObj fs)
        \<and> map_of fs ''component'' = Some (JStr c)
        \<and> map_of fs ''description'' = Some (JStr d)
        \<and> z_nullable z_string (map_of fs ''mcpQuery'') = Some q
        \<and> children_schema (map_of fs ''children'') = Some ch
        \<and> out = act_node (JStr c) (JStr d) q ch)"
proof
  assume a: "ACTComponentSchema v = Some out"
  then obtain fs where v: "v = Some (JObj fs)"
    using ACT_accepts_only_objects by blast
  from a show "\<exists>fs c d q ch. v = Some (JObj fs)
        \<and> map_of fs ''component'' = Some (JStr c)
        \<and> map_of fs ''description'' = Some (JStr d)
        \<and> z_nullable z_string (map_of fs ''mcpQuery'') = Some q
        \<and> children_schema (map_of fs ''children'') = Some ch
        \<and> out = act_node (JStr c) (JStr d) q ch"
    unfolding v ACT_object
    by (auto simp: z_string_Some split: option.splits)
next
  assume "\<exists>fs c d q ch. v = Some (JObj fs)
        \<and> map_of fs ''component'' = Some (JStr c)
        \<and> map_of fs ''description'' = Some (JStr d)
        \<and> z_nullable z_string (map_of fs ''mcpQuery'') = Some q
        \<and> children_schema (map_of fs ''children'') = Some ch
        \<and> out = act_node (JStr c) (JStr d) q ch"
  then show "ACTComponentSchema v = Some out"
    by (auto simp: ACT_object z_string_def)
qed

theorem ACT_component_description_are_strings_witness:
  "ACTComponentSchema (Some (act_node (JStr ''Grid'') (JStr []) JNull (JStr [])))
     = Some (act_node (JStr ''Grid'') (JStr []) JNull (JStr []))"
proof -
  have "\<exists>fs c d q ch.
          Some (act_node (JStr ''Grid'') (JStr []) JNull (JStr [])) = Some (JObj fs)
        \<and> map_of fs ''component'' = Some (JStr c)
        \<and> map_of fs ''description'' = Some (JStr d)
        \<and> z_nullable z_string (map_of fs ''mcpQuery'') = Some q
        \<and> children_schema (map_of fs ''children'') = Some ch
        \<and> act_node (JStr ''Grid'') (JStr []) JNull (JStr []) = act_node (JStr c) (JStr d) q ch"
    by (rule exI [of _ "[(''component'', JStr ''Grid''), (''description'', JStr []),
                         (''mcpQuery'', JNull), (''children'', JStr [])]"])
       (simp add: act_node_def z_nullable_def children_schema_string)
  then show ?thesis
    by (simp only: ACT_component_description_are_strings)
qed

text \<open>
  Against C3 as stated (an empty \<^verbatim>\<open>component\<close> or \<^verbatim>\<open>description\<close> is rejected): the node
  \<^verbatim>\<open>{component: "", description: "", mcpQuery: null, children: "x"}\<close> is accepted.
\<close>

theorem ACT_accepts_empty_component_and_description:
  "ACTComponentSchema (Some (JObj [(''component'', JStr []), (''description'', JStr []),
                                   (''mcpQuery'', JNull), (''children'', JStr ''x'')]))
     = Some (JObj [(''component'', JStr []), (''description'', JStr []),
                   (''mcpQuery'', JNull), (''children'', JStr ''x'')])"
  by (simp add: act_node_def ACT_object z_string_def z_nullable_def children_schema_string)

text \<open>
  Claim C4. For a node whose other three keys pass, the \<^verbatim>\<open>children\<close> key is a union of two
  cases: any string, the empty one included, is accepted and returned as that string; the
  empty array is accepted and returned as the empty array; the two parsed nodes differ; a
  value that is neither a string nor an array (or a missing key) is rejected; an array with
  an element that the schema rejects is rejected.
\<close>

theorem ACT_children_union:
  assumes "z_string (map_of fs ''component'') = Some c"
      and "z_string (map_of fs ''description'') = Some d"
      and "z_nullable z_string (map_of fs ''mcpQuery'') = Some q"
  shows "(\<forall>s. map_of fs ''children'' = Some (JStr s) \<longrightarrow>
             ACTComponentSchema (Some (JObj fs)) = Some (act_node c d q (JStr s)))
       \<and> (map_of fs ''children'' = Some (JArr []) \<longrightarrow>
             ACTComponentSchema (Some (JObj fs)) = Some (act_node c d q (JArr [])))
       \<and> act_node c d q (JStr []) \<noteq> act_node c d q (JArr [])
       \<and> ((\<forall>s. map_of fs ''children'' \<noteq> Some (JStr s)) \<and>
          (\<forall>xs. map_of fs ''children'' \<noteq> Some (JArr xs)) \<longrightarrow>
             ACTComponentSchema (Some (JObj fs)) = None)
       \<and> (\<forall>xs x. map_of fs ''children'' = Some (JArr xs) \<and> x \<in> set xs \<and>
                 ACTComponentSchema (Some x) = None \<longrightarrow>
             ACTComponentSchema (Some (JObj fs)) = None)"
proof (intro conjI allI impI)
  fix s assume "map_of fs ''children'' = Some (JStr s)"
  with assms show "ACTComponentSchema (Some (JObj fs)) = Some (act_node c d q (JStr s))"
    by (simp add: ACT_object children_schema_string)
next
  assume "map_of fs ''children'' = Some (JArr [])"
  with assms show "ACTComponentSchema (Some (JObj fs)) = Some (act_node c d q (JArr []))"
    by (simp add: ACT_object children_schema_array)
next
  show "act_node c d q (JStr []) \<noteq> act_node c d q (JArr [])"
    by (simp add: act_node_def)
next
  assume "(\<forall>s. map_of fs ''children'' \<noteq> Some (JStr s)) \<and>
          (\<forall>xs. map_of fs ''children'' \<noteq> Some (JArr xs))"
  then have "children_schema (map_of fs ''children'') = None"
    by (intro children_schema_other) auto
  then show "ACTComponentSchema (Some (JObj fs)) = None"
    by (simp add: ACT_object split: option.splits)
next
  fix xs x
  assume h: "map_of fs ''children'' = Some (JArr xs) \<and> x \<in> set xs \<and>
             ACTComponentSchema (Some x) = None"
  then have "None \<in> set (map (\<lambda>x. ACTComponentSchema (Some x)) xs)"
    by force
  then have "those (map (\<lambda>x. ACTComponentSchema (Some x)) xs) = None"
    by (simp only: those_None_iff)
  with h have "children_schema (map_of fs ''children'') = None"
    by (simp add: children_schema_array)
  then show "ACTComponentSchema (Some (JObj fs)) = None"
    by (simp add: ACT_object split: option.splits)
qed

theorem ACT_children_union_witness:
  "ACTComponentSchema (Some (act_node (JStr ''Button'') (JStr ''Save'') JNull (JStr [])))
     = Some (act_node (JStr ''Button'') (JStr ''Save'') JNull (JStr []))
   \<and> ACTComponentSchema (Some (act_node (JStr ''Toolbar'') (JStr ''Actions'') JNull (JArr [])))
     = Some (act_node (JStr ''Toolbar'') (JStr ''Actions'') JNull (JArr []))
   \<and> act_node (JStr ''Button'') (JStr ''Save'') JNull (JStr [])
     \<noteq> act_node (JStr ''Button'') (JStr ''Save'') JNull (JArr [])
   \<and> ACTComponentSchema (Some (act_node (JStr ''Grid'') (JStr ''Rows'') JNull (JNum 3))) = None
   \<and> ACTComponentSchema (Some (JObj [(''component'', JStr ''Grid''), (''description'', JStr ''Rows''),
                                     (''mcpQuery'', JNull)])) = None
   \<and> ACTComponentSchema
        (Some (act_node (JStr ''Toolbar'') (JStr ''Actions'') JNull
                 (JArr [act_node (JStr ''Button'') (JStr ''Save'') JNull (JStr []),
                        act_node (JStr ''Button'') (JStr ''Open'') JNull (JBool True)]))) = None"
proof -
  have bad: "ACTComponentSchema (Some (act_node (JStr ''Button'') (JStr ''Open'') JNull (JBool True))) = None"
    using ACT_children_union [of "[(''component'', JStr ''Button''), (''description'', JStr ''Open''),
                                   (''mcpQuery'', JNull), (''children'', JBool True)]"
                                 "JStr ''Button''" "JStr ''Open''" JNull]
    by (simp add: act_node_def z_string_def z_nullable_def)
  have leaf: "ACTComponentSchema (Some (act_node (JStr ''Button'') (JStr ''Save'') JNull (JStr [])))
     = Some (act_node (JStr ''Button'') (JStr ''Save'') JNull (JStr []))"
   and ne: "act_node (JStr ''Button'') (JStr ''Save'') JNull (JStr [])
     \<noteq> act_node (JStr ''Button'') (JStr ''Save'') JNull (JArr [])"
    using ACT_children_union [of "[(''component'', JStr ''Button''), (''description'', JStr ''Save''),
                                   (''mcpQuery'', JNull), (''children'', JStr [])]"
                                 "JStr ''Button''" "JStr ''Save''" JNull]
    by (simp_all add: act_node_def z_string_def z_nullable_def)
  have container: "ACTComponentSchema (Some (act_node (JStr ''Toolbar'') (JStr ''Actions'') JNull (JArr [])))
     = Some (act_node (JStr ''Toolbar'') (JStr ''Actions'') JNull (JArr []))"
    using ACT_children_union [of "[(''component'', JStr ''Toolbar''), (''description'', JStr ''Actions''),
                                   (''mcpQuery'', JNull), (''children'', JArr [])]"
                                 "JStr ''Toolbar''" "JStr ''Actions''" JNull]
    by (simp add: act_node_def z_string_def z_nullable_def)
  have number: "ACTComponentSchema (Some (act_node (JStr ''Grid'') (JStr ''Rows'') JNull (JNum 3))) = None"
    using ACT_children_union [of "[(''component'', JStr ''Grid''), (''description'', JStr ''Rows''),
                                   (''mcpQuery'', JNull), (''children'', JNum 3)]"
                                 "JStr ''Grid''" "JStr ''Rows''" JNull]
    by (simp add: act_node_def z_string_def z_nullable_def)
  have missing: "ACTComponentSchema (Some (JObj [(''component'', JStr ''Grid''), (''description'', JStr ''Rows''),
                                     (''mcpQuery'', JNull)])) = None"
    using ACT_children_union [of "[(''component'', JStr ''Grid''), (''description'', JStr ''Rows''),
                                   (''mcpQuery'', JNull)]"
                                 "JStr ''Grid''" "JStr ''Rows''" JNull]
    by (simp add: z_string_def z_nullable_def)
  have nested: "ACTComponentSchema
        (Some (act_node (JStr ''Toolbar'') (JStr ''Actions'') JNull
                 (JArr [act_node (JStr ''Button'') (JStr ''Save'') JNull (JStr []),
                        act_node (JStr ''Button'') (JStr ''Open'') JNull (JBool True)]))) = None"
    using bad
      ACT_children_union [of "[(''component'', JStr ''Toolbar''), (''description'', JStr ''Actions''),
                                   (''mcpQuery'', JNull), (''children'', 
                 JArr [act_node (JStr ''Button'') (JStr ''Save'') JNull (JStr []),
                        act_node (JStr ''Button'') (JStr ''Open'') JNull (JBool True)])]"
                                 "JStr ''Toolbar''" "JStr ''Actions''" JNull]
    by (simp add: act_node_def z_string_def z_nullable_def) blast
  from leaf container ne number missing nested show ?thesis by blast
qed

text \<open>
  Claim C5, as the code has it. \<^verbatim>\<open>mcpQuery\<close> is \<^verbatim>\<open>z.string().nullable()\<close>: for a node whose
  other three keys pass, \<^verbatim>\<open>null\<close> is accepted and stays \<^verbatim>\<open>null\<close> (it is not turned into the
  empty string), a string is accepted as that string, and a node that has no
  \<^verbatim>\<open>mcpQuery\<close> key at all is rejected.
\<close>

theorem ACT_mcpQuery_null_or_string:
  assumes "z_string (map_of fs ''component'') = Some c"
      and "z_string (map_of fs ''description'') = Some d"
      and "children_schema (map_of fs ''children'') = Some ch"
  shows "(map_of fs ''mcpQuery'' = Some JNull \<longrightarrow>
            ACTComponentSchema (Some (JObj fs)) = Some (act_node c d JNull ch))
       \<and> (\<forall>s. map_of fs ''mcpQuery'' = Some (JStr s) \<longrightarrow>
            ACTComponentSchema (Some (JObj fs)) = Some (act_node c d (JStr s) ch))
       \<and> act_node c d JNull ch \<noteq> act_node c d (JStr []) ch
       \<and> (map_of fs ''mcpQuery'' = None \<longrightarrow> ACTComponentSchema (Some (JObj fs)) = None)"
  using assms
  by (simp add: ACT_object z_nullable_def z_string_def act_node_def)

theorem ACT_mcpQuery_null_or_string_witness:
  "ACTComponentSchema (Some (act_node (JStr ''Grid'') (JStr ''Rows'') JNull (JStr ''x'')))
     = Some (act_node (JStr ''Grid'') (JStr ''Rows'') JNull (JStr ''x''))
   \<and> ACTComponentSchema (Some (act_node (JStr ''Grid'') (JStr ''Rows'') (JStr []) (JStr ''x'')))
     = Some (act_node (JStr ''Grid'') (JStr ''Rows'') (JStr []) (JStr ''x''))
   \<and> ACTComponentSchema (Some (JObj [(''component'', JStr ''Grid''), (''description'', JStr ''Rows''),
                                     (''children'', JStr ''x'')])) = None"
proof -
  have a: "ACTComponentSchema (Some (act_node (JStr ''Grid'') (JStr ''Rows'') JNull (JStr ''x'')))
     = Some (act_node (JStr ''Grid'') (JStr ''Rows'') JNull (JStr ''x''))"
    using ACT_mcpQuery_null_or_string [of "[(''component'', JStr ''Grid''), (''description'', JStr ''Rows''),
                                   (''mcpQuery'', JNull), (''children'', JStr ''x'')]"
                                 "JStr ''Grid''" "JStr ''Rows''" "JStr ''x''"]
    by (simp add: act_node_def z_string_def children_schema_string)
  have b: "ACTComponentSchema (Some (act_node (JStr ''Grid'') (JStr ''Rows'') (JStr []) (JStr ''x'')))
     = Some (act_node (JStr ''Grid'') (JStr ''Rows'') (JStr []) (JStr ''x''))"
    using ACT_mcpQuery_null_or_string [of "[(''component'', JStr ''Grid''), (''description'', JStr ''Rows''),
                                   (''mcpQuery'', JStr []), (''children'', JStr ''x'')]"
                                 "JStr ''Grid''" "JStr ''Rows''" "JStr ''x''"]
    by (simp add: act_node_def z_string_def children_schema_string)
  have c: "ACTComponentSchema (Some (JObj [(''component'', JStr ''Grid''), (''description'', JStr ''Rows''),
                                     (''children'', JStr ''x'')])) = None"
    using ACT_mcpQuery_null_or_string [of "[(''component'', JStr ''Grid''), (''description'', JStr ''Rows''),
                                   (''children'', JStr ''x'')]"
                                 "JStr ''Grid''" "JStr ''Rows''" "JStr ''x''"]
    by (simp add: z_string_def children_schema_string)
  from a b c show ?thesis by blast
qed

text \<open>
  Against C5 as stated (a node whose \<^verbatim>\<open>mcpQuery\<close> field is absent is accepted): the node
  \<^verbatim>\<open>{component: "Grid", description: "Main data grid", children: []}\<close> is rejected.
\<close>

theorem ACT_rejects_missing_mcpQuery:
  "ACTComponentSchema (Some (JObj [(''component'', JStr ''Grid''),
                                   (''description'', JStr ''Main data grid''),
                                   (''children'', JArr [])])) = None"
  by (simp add: ACT_object z_string_def z_nullable_def)

section \<open>Start-up (env.ts and the module server.ts)\<close>

lemma map_of_process_env:
  "map_of (map (\<lambda>(k, v). (k, JStr v)) vars) k = map_option JStr (map_of vars k)"
  by (induction vars) auto

lemma load_env_eq:
  "load_env vars =
     (case map_of vars ''SECRET'' of
        None \<Rightarrow> Inl Uncaught_ZodError
      | Some s \<Rightarrow>
          (case map_of vars ''SERVER_URL'' of
             None \<Rightarrow> Inl Uncaught_ZodError
           | Some u \<Rightarrow>
               if s \<noteq> [] \<and> u \<noteq> [] then Inr \<lparr>SECRET = s, SERVER_URL = u\<rparr>
               else Inl Uncaught_ZodError))"
  by (auto simp: load_env_def envSchema_def z_object_def process_env_object_def
        map_of_process_env z_string_min_def str_field_def Suc_le_eq
      split: option.splits)

text \<open>
  Claim C6. If \<^verbatim>\<open>SECRET\<close> or \<^verbatim>\<open>SERVER_URL\<close> is missing from the environment or is the empty
  string, start-up ends with the ZodError of env.ts: no server object exists and no tool has
  been registered. Conversely a server object, and with it the three tools and their
  handlers, exists only together with a configuration that holds both values of the
  environment, both non-empty: no handler ever runs without them.
\<close>

theorem startup_needs_configuration:
  "(map_of vars ''SECRET'' = None \<or> map_of vars ''SECRET'' = Some []
      \<or> map_of vars ''SERVER_URL'' = None \<or> map_of vars ''SERVER_URL'' = Some []
     \<longrightarrow> server_ts vars connect_ok = \<lparr>exited = Some Uncaught_ZodError, config = None, mcp = None\<rparr>)
   \<and> (\<forall>s. mcp (server_ts vars connect_ok) = Some s \<longrightarrow>
         tools s = [''planner_tool'', ''structure_tool'', ''merger_tool'']
         \<and> (\<exists>env. config (server_ts vars connect_ok) = Some env
                \<and> map_of vars ''SECRET'' = Some (SECRET env) \<and> SECRET env \<noteq> []
                \<and> map_of vars ''SERVER_URL'' = Some (SERVER_URL env) \<and> SERVER_URL env \<noteq> []))"
  by (auto simp: server_ts_def load_env_eq McpServer_def registerTool_def Let_def
      split: option.splits if_splits)

theorem startup_needs_configuration_witness:
  "server_ts [(''SERVER_URL'', ''http://localhost:3000'')] True
     = \<lparr>exited = Some Uncaught_ZodError, config = None, mcp = None\<rparr>
   \<and> server_ts [(''SECRET'', []), (''SERVER_URL'', ''http://localhost:3000'')] True
     = \<lparr>exited = Some Uncaught_ZodError, config = None, mcp = None\<rparr>
   \<and> server_ts [(''SECRET'', ''t0ken'')] True
     = \<lparr>exited = Some Uncaught_ZodError, config = None, mcp = None\<rparr>
   \<and> server_ts [(''SECRET'', ''t0ken''), (''SERVER_URL'', [])] True
     = \<lparr>exited = Some Uncaught_ZodError, config = None, mcp = None\<rparr>
   \<and> mcp (server_ts [(''SECRET'', ''t0ken''), (''SERVER_URL'', ''http://localhost:3000'')] True)
     = Some \<lparr>server_name = ''kendoai-mcp'', server_version = ''1.0.0'',
             tools = [''planner_tool'', ''structure_tool'', ''merger_tool''], connected = True\<rparr>
   \<and> config (server_ts [(''SECRET'', ''t0ken''), (''SERVER_URL'', ''http://localhost:3000'')] True)
     = Some \<lparr>SECRET = ''t0ken'', SERVER_URL = ''http://localhost:3000''\<rparr>"
proof -
  have a: "server_ts [(''SERVER_URL'', ''http://localhost:3000'')] True
     = \<lparr>exited = Some Uncaught_ZodError, config = None, mcp = None\<rparr>"
    using startup_needs_configuration [of "[(''SERVER_URL'', ''http://localhost:3000'')]" True]
    by simp
  have b: "server_ts [(''SECRET'', []), (''SERVER_URL'', ''http://localhost:3000'')] True
     = \<lparr>exited = Some Uncaught_ZodError, config = None, mcp = None\<rparr>"
    using startup_needs_configuration [of "[(''SECRET'', []), (''SERVER_URL'', ''http://localhost:3000'')]" True]
    by simp
  have c: "server_ts [(''SECRET'', ''t0ken'')] True
     = \<lparr>exited = Some Uncaught_ZodError, config = None, mcp = None\<rparr>"
    using startup_needs_configuration [of "[(''SECRET'', ''t0ken'')]" True]
    by simp
  have d: "server_ts [(''SECRET'', ''t0ken''), (''SERVER_URL'', [])] True
     = \<lparr>exited = Some Uncaught_ZodError, config = None, mcp = None\<rparr>"
    using startup_needs_configuration [of "[(''SECRET'', ''t0ken''), (''SERVER_URL'', [])]" True]
    by simp
  have e: "mcp (server_ts [(''SECRET'', ''t0ken''), (''SERVER_URL'', ''http://localhost:3000'')] True)
     = Some \<lparr>server_name = ''kendoai-mcp'', server_version = ''1.0.0'',
             tools = [''planner_tool'', ''structure_tool'', ''merger_tool''], connected = True\<rparr>"
    by (simp add: server_ts_def load_env_eq McpServer_def registerTool_def)
  have f: "config (server_ts [(''SECRET'', ''t0ken''), (''SERVER_URL'', ''http://localhost:3000'')] True)
     = Some \<lparr>SECRET = ''t0ken'', SERVER_URL = ''http://localhost:3000''\<rparr>"
    using e startup_needs_configuration
      [of "[(''SECRET'', ''t0ken''), (''SERVER_URL'', ''http://localhost:3000'')]" True]
    by auto
  from a b c d e f show ?thesis by blast
qed

section \<open>The handlers, case by case\<close>

lemma get_not_null: "j \<noteq> JNull \<Longrightarrow> get (Some j) k = Inr (field j k)"
  by (cases j) (simp_all add: get_def field_def)




lemma field_Some_not_null: "field j k = Some v \<Longrightarrow> j \<noteq> JNull"
  by (auto simp: field_def)

lemma not_success_and_not_data_eq:
  "result \<noteq> JNull \<Longrightarrow>
   not_success_and_not_data result
     = Inr (\<not> truthy (field result ''success'') \<and> \<not> truthy (field result ''data''))"
  by (simp add: not_success_and_not_data_def try_bind_def get_not_null)

lemma error_or_eq:
  "result \<noteq> JNull \<Longrightarrow>
   error_or result fallback
     = Inr (if truthy (field result ''error'') then to_string (field result ''error'') else fallback)"
  by (simp add: error_or_def try_bind_def get_not_null)



lemma planner_tool_result:
  "fetch_json (planner_request env query) = Inr result \<Longrightarrow> result \<noteq> JNull \<Longrightarrow>
   planner_tool env fetch_json now query
     = (if \<not> truthy (field result ''success'') \<and> \<not> truthy (field result ''data'') then
          \<lparr>template = Planner_Tool_API_Error,
           interpolated =
             [if truthy (field result ''error'') then to_string (field result ''error'')
              else ''Unknown error occurred while generating the execution plan'', now]\<rparr>
        else
          (case get (field result ''data'') ''plan'' of
             Inr plan \<Rightarrow> \<lparr>template = Page_Generation_Plan, interpolated = [to_string plan]\<rparr>
           | Inl error \<Rightarrow>
               \<lparr>template = Planner_Tool_Network_Error,
                interpolated = [error_message_or error ''Unknown network error'', now]\<rparr>))"
  by (simp add: planner_tool_def try_bind_def not_success_and_not_data_eq error_or_eq get_not_null
      split: sum.splits)



lemma structure_tool_result:
  "fetch_json (structure_request env date_now plan query) = Inr result \<Longrightarrow> result \<noteq> JNull \<Longrightarrow>
   structure_tool env fetch_json date_now now plan query
     = (if \<not> truthy (field result ''success'') \<and> \<not> truthy (field result ''data'') then
          \<lparr>template = Structure_Tool_API_Error,
           interpolated =
             [if truthy (field result ''error'') then to_string (field result ''error'')
              else ''Unknown error occurred while generating the component structure'', now]\<rparr>
        else
          (case get (field result ''data'') ''structure'' of
             Inr structure \<Rightarrow>
               \<lparr>template = ACT_Generated,
                interpolated = [to_string (JSON_stringify2 structure)]\<rparr>
           | Inl error \<Rightarrow>
               \<lparr>template = Structure_Tool_Network_Error,
                interpolated = [error_message_or error ''Unknown network error'', now]\<rparr>))"
  by (simp add: structure_tool_def try_bind_def not_success_and_not_data_eq error_or_eq get_not_null
      split: sum.splits)



lemma merger_tool_result:
  "fetch_json (merger_request env actStructure) = Inr result \<Longrightarrow> result \<noteq> JNull \<Longrightarrow>
   merger_tool env fetch_json now actStructure
     = (if \<not> truthy (field result ''success'') \<and> \<not> truthy (field result ''data'') then
          \<lparr>template = Code_Generator_API_Error,
           interpolated =
             [if truthy (field result ''error'') then to_string (field result ''error'')
              else ''Unknown error occurred while generating the Kendo React code'', now]\<rparr>
        else
          (case try_bind (get (field result ''data'') ''code'') (\<lambda>code. get code ''mainComponent'') of
             Inr mainComponent \<Rightarrow>
               \<lparr>template = Code_Generated_Successfully,
                interpolated = [to_string (JSON_stringify2 mainComponent)]\<rparr>
           | Inl error \<Rightarrow>
               \<lparr>template = Code_Generator_Network_Error,
                interpolated = [error_message_or error ''Unknown network error'', now]\<rparr>))"
  by (simp add: merger_tool_def try_bind_def not_success_and_not_data_eq error_or_eq get_not_null
      split: sum.splits)

lemma planner_tool_cong:
  "fetch1 (planner_request env1 query1) = fetch2 (planner_request env2 query2) \<Longrightarrow>
   planner_tool env1 fetch1 now query1 = planner_tool env2 fetch2 now query2"
  by (simp add: planner_tool_def)

lemma structure_tool_cong:
  "fetch1 (structure_request env1 t1 plan1 query1) = fetch2 (structure_request env2 t2 plan2 query2) \<Longrightarrow>
   structure_tool env1 fetch1 t1 now plan1 query1 = structure_tool env2 fetch2 t2 now plan2 query2"
  by (simp add: structure_tool_def)

lemma merger_tool_cong:
  "fetch1 (merger_request env1 act1) = fetch2 (merger_request env2 act2) \<Longrightarrow>
   merger_tool env1 fetch1 now act1 = merger_tool env2 fetch2 now act2"
  by (simp add: merger_tool_def)













section \<open>Claims about the handlers (server.ts)\<close>




text \<open>
  Claim C2, as the code has it. The structure handler applies no schema to
  \<^verbatim>\<open>result.data.structure\<close>: whenever the guard does not fire and \<^verbatim>\<open>data\<close> can be read, it returns
  its success report with \<^verbatim>\<open>JSON.stringify(result.data.structure, null, 2)\<close> interpolated,
  whatever the structure is. \<^verbatim>\<open>ACTComponentSchema\<close> is used in server.ts only as the input
  schema of \<^verbatim>\<open>merger_tool\<close>, and no report of a malformed artifact exists.
\<close>

theorem structure_tool_forwards_without_validation:
  assumes "fetch_json (structure_request env date_now plan query) = Inr result"
      and "truthy (field result ''success'') \<or> truthy (field result ''data'')"
      and "field result ''data'' = Some d"
      and "d \<noteq> JNull"
  shows "structure_tool env fetch_json date_now now plan query
           = \<lparr>template = ACT_Generated,
              interpolated = [to_string (JSON_stringify2 (field d ''structure''))]\<rparr>
         \<and> kind_of (template (structure_tool env fetch_json date_now now plan query)) = Success"
proof -
  from assms(3) have nn: "result \<noteq> JNull" by (rule field_Some_not_null)
  have "structure_tool env fetch_json date_now now plan query
           = \<lparr>template = ACT_Generated,
              interpolated = [to_string (JSON_stringify2 (field d ''structure''))]\<rparr>"
    using assms(2-4)
    by (auto simp: structure_tool_result [where fetch_json = fetch_json, OF assms(1) nn] get_not_null)
  then show ?thesis by simp
qed

theorem structure_tool_forwards_without_validation_witness:
  "ACTComponentSchema (Some (JNum 42)) = None
   \<and> structure_tool \<lparr>SECRET = ''t0ken'', SERVER_URL = ''http://localhost:3000''\<rparr>
      (\<lambda>_. Inr (JObj [(''success'', JBool True), (''data'', JObj [(''structure'', JNum 42)])]))
      1735689600000 ''2025-01-01T00:00:00.000Z'' ''1. a form'' ''build a login form''
     = \<lparr>template = ACT_Generated, interpolated = [''42'']\<rparr>"
proof -
  have a: "ACTComponentSchema (Some (JNum 42)) = None"
    by (simp add: ACT_not_object)
  have s: "show_int 42 = ''42''"
    by code_simp
  have b: "structure_tool \<lparr>SECRET = ''t0ken'', SERVER_URL = ''http://localhost:3000''\<rparr>
      (\<lambda>_. Inr (JObj [(''success'', JBool True), (''data'', JObj [(''structure'', JNum 42)])]))
      1735689600000 ''2025-01-01T00:00:00.000Z'' ''1. a form'' ''build a login form''
     = \<lparr>template = ACT_Generated, interpolated = [''42'']\<rparr>"
    using structure_tool_forwards_without_validation
      [where result = "JObj [(''success'', JBool True), (''data'', JObj [(''structure'', JNum 42)])]"
         and fetch_json = "\<lambda>_. Inr (JObj [(''success'', JBool True), (''data'', JObj [(''structure'', JNum 42)])])"
         and d = "JObj [(''structure'', JNum 42)]"
         and env = "\<lparr>SECRET = ''t0ken'', SERVER_URL = ''http://localhost:3000''\<rparr>"
         and now = "''2025-01-01T00:00:00.000Z''" and query = "''build a login form''"
         and date_now = 1735689600000 and plan = "''1. a form''"]
    by (simp add: field_def to_string_def JSON_stringify2_def s)
  from a b show ?thesis by blast
qed

text \<open>
  Against C2 as stated: the response
  \<^verbatim>\<open>{success: true, data: {structure: {component: "Grid", description: "", children: "x"}}}\<close>
  carries a structure that the schema rejects, and the structure handler returns its
  success report for it.
\<close>

theorem invalid_structure_is_reported_as_success:
  "ACTComponentSchema
     (Some (JObj [(''component'', JStr ''Grid''), (''description'', JStr []), (''children'', JStr ''x'')]))
     = None
   \<and> template (structure_tool \<lparr>SECRET = ''t0ken'', SERVER_URL = ''http://localhost:3000''\<rparr>
      (\<lambda>_. Inr (JObj [(''success'', JBool True),
                        (''data'', JObj [(''structure'',
                           JObj [(''component'', JStr ''Grid''), (''description'', JStr []),
                                 (''children'', JStr ''x'')])])]))
      1735689600000 ''2025-01-01T00:00:00.000Z'' ''1. a form'' ''build a login form'')
     = ACT_Generated
   \<and> kind_of ACT_Generated = Success"
  by (simp add: ACT_object z_string_def z_nullable_def
        structure_tool_def structure_request_def try_bind_def not_success_and_not_data_def get_def)




text \<open>
  Claim C8. When the decoded response has \<^verbatim>\<open>success: false\<close>, \<^verbatim>\<open>error: "rate limited"\<close> and no
  \<^verbatim>\<open>data\<close>, each of the three handlers returns its API-error report (the report of a failure
  that the remote collaborator announced), and the text interpolated under
  \<^verbatim>\<open>Error Details:\<close> is \<^verbatim>\<open>rate limited\<close>.
\<close>

theorem rate_limited_is_API_error:
  assumes "field result ''success'' = Some (JBool False)"
      and "field result ''error'' = Some (JStr ''rate limited'')"
      and "field result ''data'' = None"
  shows "(fetch_json (planner_request env query) = Inr result \<longrightarrow>
            planner_tool env fetch_json now query
              = \<lparr>template = Planner_Tool_API_Error, interpolated = [''rate limited'', now]\<rparr>)
       \<and> (fetch_json (structure_request env date_now plan query) = Inr result \<longrightarrow>
            structure_tool env fetch_json date_now now plan query
              = \<lparr>template = Structure_Tool_API_Error, interpolated = [''rate limited'', now]\<rparr>)
       \<and> (fetch_json (merger_request env actStructure) = Inr result \<longrightarrow>
            merger_tool env fetch_json now actStructure
              = \<lparr>template = Code_Generator_API_Error, interpolated = [''rate limited'', now]\<rparr>)"
proof -
  from assms(1) have nn: "result \<noteq> JNull" by (rule field_Some_not_null)
  show ?thesis
    using assms
    by (simp add: planner_tool_result [OF _ nn] structure_tool_result [OF _ nn]
          merger_tool_result [OF _ nn] to_string_def)
qed

theorem rate_limited_is_API_error_witness:
  "planner_tool \<lparr>SECRET = ''t0ken'', SERVER_URL = ''http://localhost:3000''\<rparr>
      (\<lambda>_. Inr (JObj [(''success'', JBool False), (''error'', JStr ''rate limited'')]))
      ''2025-01-01T00:00:00.000Z'' ''build a login form''
     = \<lparr>template = Planner_Tool_API_Error,
        interpolated = [''rate limited'', ''2025-01-01T00:00:00.000Z'']\<rparr>
   \<and> structure_tool \<lparr>SECRET = ''t0ken'', SERVER_URL = ''http://localhost:3000''\<rparr>
      (\<lambda>_. Inr (JObj [(''success'', JBool False), (''error'', JStr ''rate limited'')]))
      1735689600000 ''2025-01-01T00:00:00.000Z'' ''1. a form'' ''build a login form''
     = \<lparr>template = Structure_Tool_API_Error,
        interpolated = [''rate limited'', ''2025-01-01T00:00:00.000Z'']\<rparr>
   \<and> merger_tool \<lparr>SECRET = ''t0ken'', SERVER_URL = ''http://localhost:3000''\<rparr>
      (\<lambda>_. Inr (JObj [(''success'', JBool False), (''error'', JStr ''rate limited'')]))
      ''2025-01-01T00:00:00.000Z'' (act_node (JStr ''Form'') (JStr ''Login'') JNull (JArr []))
     = \<lparr>template = Code_Generator_API_Error,
        interpolated = [''rate limited'', ''2025-01-01T00:00:00.000Z'']\<rparr>
   \<and> kind_of Planner_Tool_API_Error = API_Error
   \<and> kind_of Structure_Tool_API_Error = API_Error
   \<and> kind_of Code_Generator_API_Error = API_Error"
  using rate_limited_is_API_error
    [of "JObj [(''success'', JBool False), (''error'', JStr ''rate limited'')]"
        "\<lambda>_. Inr (JObj [(''success'', JBool False), (''error'', JStr ''rate limited'')])"
        "\<lparr>SECRET = ''t0ken'', SERVER_URL = ''http://localhost:3000''\<rparr>"
        "''build a login form''" "''2025-01-01T00:00:00.000Z''"
        1735689600000 "''1. a form''"
        "act_node (JStr ''Form'') (JStr ''Login'') JNull (JArr [])"]
  by (simp add: field_def)




text \<open>
  Claim C10, as the code has it. The handlers put \<^verbatim>\<open>env.SECRET\<close> in the body of the outbound
  request, under the key \<^verbatim>\<open>secret\<close>, and nowhere else: the URL is built from
  \<^verbatim>\<open>env.SERVER_URL\<close> alone, and the report is computed from the outcome of the remote call
  and the clock only. Two runs with different secrets whose remote calls have the same
  outcome return the same report. The handlers do not filter what the remote collaborator
  sends back: a response or a fault message that contains the secret carries it into the
  report.
\<close>

theorem secret_only_in_request_body:
  "url (planner_request env query) = SERVER_URL env @ ''/api/agents/planner/generate''
   \<and> url (structure_request env date_now plan query) = SERVER_URL env @ ''/api/agents/structure/generate''
   \<and> url (merger_request env actStructure) = SERVER_URL env @ ''/api/agents/merger/generate''
   \<and> field (body (planner_request env query)) ''secret'' = Some (JStr (SECRET env))
   \<and> field (body (structure_request env date_now plan query)) ''secret'' = Some (JStr (SECRET env))
   \<and> field (body (merger_request env actStructure)) ''secret'' = Some (JStr (SECRET env))
   \<and> (fetch_json (planner_request env query) = fetch_json' (planner_request env' query') \<longrightarrow>
        planner_tool env fetch_json now query = planner_tool env' fetch_json' now query')
   \<and> (fetch_json (structure_request env date_now plan query)
          = fetch_json' (structure_request env' date_now' plan' query') \<longrightarrow>
        structure_tool env fetch_json date_now now plan query
          = structure_tool env' fetch_json' date_now' now plan' query')
   \<and> (fetch_json (merger_request env actStructure) = fetch_json' (merger_request env' actStructure') \<longrightarrow>
        merger_tool env fetch_json now actStructure = merger_tool env' fetch_json' now actStructure')"
  using planner_tool_cong [of fetch_json env query fetch_json' env' query' now]
        structure_tool_cong [of fetch_json env date_now plan query fetch_json' env' date_now' plan' query' now]
        merger_tool_cong [of fetch_json env actStructure fetch_json' env' actStructure' now]
  by (simp add: planner_request_def structure_request_def merger_request_def field_def)

theorem secret_only_in_request_body_witness:
  "planner_tool \<lparr>SECRET = ''t0ken'', SERVER_URL = ''http://localhost:3000''\<rparr>
      (\<lambda>_. Inr (JObj [(''success'', JBool False), (''error'', JStr ''rate limited'')]))
      ''2025-01-01T00:00:00.000Z'' ''build a login form''
   = planner_tool \<lparr>SECRET = ''another'', SERVER_URL = ''http://localhost:3000''\<rparr>
      (\<lambda>_. Inr (JObj [(''success'', JBool False), (''error'', JStr ''rate limited'')]))
      ''2025-01-01T00:00:00.000Z'' ''build a login form''
   \<and> url (planner_request \<lparr>SECRET = ''t0ken'', SERVER_URL = ''http://localhost:3000''\<rparr>
             ''build a login form'')
     = ''http://localhost:3000/api/agents/planner/generate''
   \<and> body (planner_request \<lparr>SECRET = ''t0ken'', SERVER_URL = ''http://localhost:3000''\<rparr>
             ''build a login form'')
     = JObj [(''query'', JStr ''build a login form''), (''secret'', JStr ''t0ken'')]"
proof -
  note t = secret_only_in_request_body
      [where fetch_json = "\<lambda>_. Inr (JObj [(''success'', JBool False), (''error'', JStr ''rate limited'')])"
         and fetch_json' = "\<lambda>_. Inr (JObj [(''success'', JBool False), (''error'', JStr ''rate limited'')])"
         and env = "\<lparr>SECRET = ''t0ken'', SERVER_URL = ''http://localhost:3000''\<rparr>"
         and env' = "\<lparr>SECRET = ''another'', SERVER_URL = ''http://localhost:3000''\<rparr>"
         and now = "''2025-01-01T00:00:00.000Z''"
         and query = "''build a login form''" and query' = "''build a login form''"]
  have a: "planner_tool \<lparr>SECRET = ''t0ken'', SERVER_URL = ''http://localhost:3000''\<rparr>
      (\<lambda>_. Inr (JObj [(''success'', JBool False), (''error'', JStr ''rate limited'')]))
      ''2025-01-01T00:00:00.000Z'' ''build a login form''
   = planner_tool \<lparr>SECRET = ''another'', SERVER_URL = ''http://localhost:3000''\<rparr>
      (\<lambda>_. Inr (JObj [(''success'', JBool False), (''error'', JStr ''rate limited'')]))
      ''2025-01-01T00:00:00.000Z'' ''build a login form''"
    using t by simp
  have b: "url (planner_request \<lparr>SECRET = ''t0ken'', SERVER_URL = ''http://localhost:3000''\<rparr>
             ''build a login form'')
     = ''http://localhost:3000/api/agents/planner/generate''"
    using t by simp
  have c: "body (planner_request \<lparr>SECRET = ''t0ken'', SERVER_URL = ''http://localhost:3000''\<rparr>
             ''build a login form'')
     = JObj [(''query'', JStr ''build a login form''), (''secret'', JStr ''t0ken'')]"
    by (simp add: planner_request_def)
  from a b c show ?thesis by blast
qed

text \<open>
  Against C10 as stated (for every remote response the secret's value never appears in the
  report): a collaborator that answers \<^verbatim>\<open>{success: false, error: "invalid secret: " + secret}\<close>
  gets the secret into the text under \<^verbatim>\<open>Error Details:\<close>.
\<close>

theorem echoed_secret_appears_in_report:
  "planner_tool \<lparr>SECRET = ''t0ken'', SERVER_URL = ''http://localhost:3000''\<rparr>
      (\<lambda>req. Inr (JObj [(''success'', JBool False),
                          (''error'', JStr (''invalid secret: '' @ str_field (body req) ''secret''))]))
      ''2025-01-01T00:00:00.000Z'' ''build a login form''
     = \<lparr>template = Planner_Tool_API_Error,
        interpolated = [''invalid secret: t0ken'', ''2025-01-01T00:00:00.000Z'']\<rparr>"
  by (simp add: planner_tool_def planner_request_def try_bind_def not_success_and_not_data_def
        error_or_def get_def to_string_def str_field_def)

end
